theory Spec2Isabelle
  imports Complex_Main "HOL-Library.Sublist"
begin

section \<open>The file drop zone (\<open>sl-file-dropzone\<close>): data model\<close>

text \<open>
  The component \<open>SlFileDropzone\<close> keeps an array \<open>files\<close> of \<open>FileInfo\<close> objects.
  The transfer callbacks are closures over one \<open>FileInfo\<close> object and mutate it through
  that reference, whether or not the object is still in \<open>files\<close>. The model therefore keeps
  the objects in an explicit store (\<open>heap\<close>) and the array as a list of references.

  Rendering (\<open>render\<close>, \<open>requestUpdate\<close>, \<open>dragDroplabel\<close>) does not write component
  state and is left out, together with the properties only rendering reads.
\<close>

record File =
  name :: string
  fsize :: nat
  ftype :: string

subsection \<open>Numbers\<close>

text \<open>
  A JavaScript number is an IEEE 754 double. A finite double is kept as the rational it
  denotes, and every arithmetic operation rounds its exact result to the nearest double,
  ties to the even significand: \<open>binary64\<close>. With \<open>ilog2 q\<close> the exponent of a positive
  \<open>q\<close> (\<open>2 ^ e \<le> q < 2 ^ (e + 1)\<close>), the doubles around \<open>q\<close> are the multiples of
  \<open>2 ^ (e - 52)\<close>, and \<open>rne\<close> picks the nearest multiple. The exponent is not bounded:
  subnormal numbers and overflow are beyond what byte counts of 64 bits and their
  quotients reach.
\<close>

definition rne :: "rat \<Rightarrow> int" where
  "rne x =
     (let n = \<lfloor>x\<rfloor>; d = x - of_int n
      in if d < 1 / 2 then n else if 1 / 2 < d then n + 1 else if even n then n else n + 1)"

function ilog2 :: "rat \<Rightarrow> int" where
  "ilog2 q =
     (if q \<le> 0 then 0
      else if 2 \<le> q then ilog2 (q / 2) + 1
      else if q < 1 then ilog2 (q * 2) - 1
      else 0)"
  by pat_completeness auto
termination
proof (relation "measure (\<lambda>q. if 1 \<le> q then nat \<lfloor>q\<rfloor> else nat \<lceil>1 / q\<rceil>)", goal_cases)
  case 1
  then show ?case by simp
next
  case (2 q)
  then have "\<lfloor>q / 2\<rfloor> < \<lfloor>q\<rfloor>"
    by (simp add: floor_less_iff) linarith
  with 2 show ?case by auto
next
  case (3 q)
  then have q: "0 < q" "q < 1" by auto
  show ?case
  proof (cases "1 \<le> q * 2")
    case True
    with q have "\<lfloor>q * 2\<rfloor> = 1"
      by (simp add: floor_eq_iff)
    moreover from q have "1 < 1 / q" by simp
    then have "2 \<le> \<lceil>1 / q\<rceil>" by linarith
    ultimately show ?thesis using q True by auto
  next
    case False
    with q have "2 < 1 / q"
      by (simp add: field_simps)
    then have "\<lceil>1 / (q * 2)\<rceil> < \<lceil>1 / q\<rceil>"
      by (simp add: ceiling_less_iff) linarith
    moreover have "0 < \<lceil>1 / q\<rceil>" using q by simp
    ultimately show ?thesis using q False by auto
  qed
qed

declare ilog2.simps [simp del]

definition binary64 :: "rat \<Rightarrow> rat" where
  "binary64 q =
     (if q = 0 then 0
      else let u = 2 powi (ilog2 \<bar>q\<bar> - 52)
           in sgn q * of_int (rne (\<bar>q\<bar> / u)) * u)"

text \<open>
  The values \<open>updateTransferProgress\<close> can produce: \<open>loaded\<close> and \<open>total\<close> of a
  \<open>ProgressEvent\<close> are byte counts, read as numbers; their quotient is a finite double,
  \<open>Infinity\<close> (\<open>n / 0\<close> for \<open>n > 0\<close>) or \<open>NaN\<close> (\<open>0 / 0\<close>).
\<close>

datatype number = Finite rat | PosInfinity | NaN

definition js_div :: "nat \<Rightarrow> nat \<Rightarrow> number" where
  "js_div a b =
     (if b = 0 then (if a = 0 then NaN else PosInfinity)
      else Finite (binary64 (binary64 (of_nat a) / binary64 (of_nat b))))"

fun times100 :: "number \<Rightarrow> number" where
  "times100 (Finite q) = Finite (binary64 (q * 100))"
| "times100 PosInfinity = PosInfinity"
| "times100 NaN = NaN"

subsection \<open>Files, records and the component\<close>

type_synonym ref = nat
type_synonym xhr_ref = nat

text \<open>
  \<open>HttpMethod\<close> is an enum of \<open>./library\<close>; the component only passes its value to
  \<open>xhr.open\<close>, so it is kept as the string handed over.
\<close>

type_synonym HttpMethod = string

record FileInfo =
  fi_file :: File
  accepted :: "bool option"
  warning :: "string option"
  loading :: "bool option"
  progress :: "number option"
  xhr :: "xhr_ref option"

record ProgressEvent =
  lengthComputable :: bool
  loaded :: nat
  total :: nat

record XMLHttpRequest =
  status :: int
  response :: string

text \<open>The calls the component makes on an \<open>XMLHttpRequest\<close>, in the order it makes them.\<close>

datatype body = BinaryBody File | FormDataBody string File

datatype xhr_call =
    XhrOpen xhr_ref HttpMethod string
  | XhrUploadListeners xhr_ref ref
  | XhrSetRequestHeader xhr_ref string string
  | XhrWithCredentials xhr_ref
  | XhrSend xhr_ref body
  | XhrAbort xhr_ref

text \<open>
  The four events of a request's upload the component listens to, with what the
  listener is handed: the event, and for \<open>load\<close> the request as it is then.
\<close>

datatype upload_event =
    UploadProgress ProgressEvent
  | UploadLoad ProgressEvent XMLHttpRequest
  | UploadError ProgressEvent
  | UploadAbort ProgressEvent

datatype detail =
    NoDetail
  | FileListDetail "File list"
  | ResponseDetail string
  | EventDetail ProgressEvent
  | FileInfoDetail ref

type_synonym event = "string \<times> detail"

record Dropzone =
  dz_warning :: "string option"
  files :: "ref list"
  disabled :: bool
  noDrag :: bool
  accept :: string
  maxFileSize :: "nat option"
  maxFiles :: int
  url :: "string option"
  http_method :: HttpMethod
  headers :: "(string \<times> string) list option"
  withCredentials :: bool
  binaryBody :: bool
  heap :: "ref \<Rightarrow> FileInfo"
  next_ref :: ref
  next_xhr :: xhr_ref
  transport :: "xhr_call list"
  in_flight :: "xhr_ref \<Rightarrow> ref option"
  events :: "event list"

text \<open>
  What the component imports and this repository's sources do not contain: the two
  validators of \<open>./library\<close> and the lookup \<open>localize.term\<close>. The operations take them
  as a parameter.
\<close>

record Library =
  hasValidFileType :: "File \<Rightarrow> string \<Rightarrow> bool"
  hasValidFileSize :: "File \<Rightarrow> nat option \<Rightarrow> bool"
  localize_term :: "string \<Rightarrow> string"

datatype error = TypeError

datatype completion = Normal | Throw error

section \<open>Operations\<close>

text \<open>
  Three steps the operations are made of: a write to one \<open>FileInfo\<close> object through its
  reference, \<open>emit(this, name, {detail})\<close>, which dispatches an event to the listeners
  (kept as the list of events dispatched so far), and a call on a request (kept as the
  list of calls made so far). The field \<open>in_flight\<close> is the browser's part of the state:
  for a request that was sent and whose upload has not ended, the record that the
  upload listeners of the request close over.
\<close>

definition modify :: "ref \<Rightarrow> (FileInfo \<Rightarrow> FileInfo) \<Rightarrow> Dropzone \<Rightarrow> Dropzone" where
  "modify r f s = s\<lparr>heap := (heap s)(r := f (heap s r))\<rparr>"

definition emit :: "string \<Rightarrow> detail \<Rightarrow> Dropzone \<Rightarrow> Dropzone" where
  "emit n d s = s\<lparr>events := events s @ [(n, d)]\<rparr>"

definition call :: "xhr_call \<Rightarrow> Dropzone \<Rightarrow> Dropzone" where
  "call c s = s\<lparr>transport := transport s @ [c]\<rparr>"

definition multiple :: "Dropzone \<Rightarrow> bool" where
  "multiple s = (maxFiles s > 1)"

definition updateTransferProgress :: "ProgressEvent \<Rightarrow> ref \<Rightarrow> Dropzone \<Rightarrow> Dropzone" where
  "updateTransferProgress progressEvent fileInfo s =
     (if lengthComputable progressEvent
      then modify fileInfo
             (\<lambda>fi. fi\<lparr>progress :=
                Some (times100 (js_div (loaded progressEvent) (total progressEvent)))\<rparr>) s
      else s)"

definition onTransferComplete ::
  "Library \<Rightarrow> ProgressEvent \<Rightarrow> XMLHttpRequest \<Rightarrow> ref \<Rightarrow> Dropzone \<Rightarrow> Dropzone" where
  "onTransferComplete lib ev httpRequest fileInfo s =
     (let s1 = modify fileInfo (\<lambda>fi. fi\<lparr>loading := Some False\<rparr>) s
      in if status httpRequest = 200
         then emit ''sl-load'' (ResponseDetail (response httpRequest)) s1
         else emit ''sl-error'' (EventDetail ev)
                (modify fileInfo
                   (\<lambda>fi. fi\<lparr>warning := Some (localize_term lib ''serverError''),
                            accepted := Some False\<rparr>) s1))"

definition onTransferError :: "Library \<Rightarrow> ProgressEvent \<Rightarrow> ref \<Rightarrow> Dropzone \<Rightarrow> Dropzone" where
  "onTransferError lib ev fileInfo s =
     emit ''sl-error'' (EventDetail ev)
       (modify fileInfo
          (\<lambda>fi. fi\<lparr>loading := Some False,
                   warning := Some (localize_term lib ''transferError''),
                   accepted := Some False\<rparr>) s)"

definition onTransferAbort :: "Library \<Rightarrow> ProgressEvent \<Rightarrow> ref \<Rightarrow> Dropzone \<Rightarrow> Dropzone" where
  "onTransferAbort lib ev fileInfo s =
     emit ''sl-abort'' (EventDetail ev)
       (modify fileInfo
          (\<lambda>fi. fi\<lparr>loading := Some False,
                   warning := Some (localize_term lib ''transferAbort''),
                   accepted := Some False\<rparr>) s)"

definition uploadFile :: "ref \<Rightarrow> string \<Rightarrow> Dropzone \<Rightarrow> Dropzone" where
  "uploadFile fileInfo u s =
     (let s1 = modify fileInfo (\<lambda>fi. fi\<lparr>loading := Some True, progress := Some (Finite 0)\<rparr>) s;
          x = next_xhr s1;
          s2 = (modify fileInfo (\<lambda>fi. fi\<lparr>xhr := Some x\<rparr>) s1)\<lparr>next_xhr := Suc x\<rparr>;
          s3 = call (XhrOpen x (http_method s2) u) s2;
          s4 = call (XhrUploadListeners x fileInfo) s3;
          s5 = (case headers s4 of
                  None \<Rightarrow> s4
                | Some hs \<Rightarrow> fold (\<lambda>entry. call (XhrSetRequestHeader x (fst entry) (snd entry))) hs s4);
          s6 = (if withCredentials s5 then call (XhrWithCredentials x) s5 else s5);
          f = fi_file (heap s6 fileInfo);
          s7 = (if binaryBody s6
                then call (XhrSend x (BinaryBody f))
                       (call (XhrSetRequestHeader x ''Content-Type'' (ftype f)) s6)
                else call (XhrSend x (FormDataBody (name f) f))
                       (call (XhrSetRequestHeader x ''Content-Type'' ''multipart/form-data'')
                          s6))
      in s7\<lparr>in_flight := (in_flight s7)(x := Some fileInfo)\<rparr>)"

text \<open>
  The listeners \<open>uploadFile\<close> installs on \<open>xhr.upload\<close>, each a closure over the record,
  as the browser runs them: an event of an upload that is under way goes to the
  callback of its kind, and \<open>load\<close>, \<open>error\<close> and \<open>abort\<close> end the upload.
\<close>

definition fire :: "Library \<Rightarrow> xhr_ref \<Rightarrow> upload_event \<Rightarrow> Dropzone \<Rightarrow> Dropzone" where
  "fire lib x e s =
     (case in_flight s x of
        None \<Rightarrow> s
      | Some fileInfo \<Rightarrow>
          (case e of
             UploadProgress ev \<Rightarrow> updateTransferProgress ev fileInfo s
           | UploadLoad ev httpRequest \<Rightarrow>
               onTransferComplete lib ev httpRequest fileInfo
                 (s\<lparr>in_flight := (in_flight s)(x := None)\<rparr>)
           | UploadError ev \<Rightarrow>
               onTransferError lib ev fileInfo (s\<lparr>in_flight := (in_flight s)(x := None)\<rparr>)
           | UploadAbort ev \<Rightarrow>
               onTransferAbort lib ev fileInfo (s\<lparr>in_flight := (in_flight s)(x := None)\<rparr>)))"

text \<open>
  \<open>xhr.abort()\<close>, after the XMLHttpRequest standard: when the upload of the request has
  not ended, the call itself fires \<open>abort\<close> at the upload, with \<open>loaded\<close> and \<open>total\<close> 0
  and the length not computable, so the listener has run when the call returns.
\<close>

definition abort_event :: ProgressEvent where
  "abort_event = \<lparr>lengthComputable = False, loaded = 0, total = 0\<rparr>"

definition xhr_abort :: "Library \<Rightarrow> xhr_ref \<Rightarrow> Dropzone \<Rightarrow> Dropzone" where
  "xhr_abort lib x s = fire lib x (UploadAbort abort_event) (call (XhrAbort x) s)"

text \<open>The object \<open>addFile\<close> creates for a file, with the outcome of the two validators.\<close>

definition validate :: "Library \<Rightarrow> Dropzone \<Rightarrow> File \<Rightarrow> FileInfo" where
  "validate lib s f =
     (let fileInfo = \<lparr>fi_file = f, accepted = None, warning = None, loading = None,
                      progress = None, xhr = None\<rparr>
      in if \<not> hasValidFileType lib f (accept s)
         then fileInfo\<lparr>accepted := Some False,
                       warning := Some (localize_term lib ''fileTypeNotAccepted'')\<rparr>
         else if \<not> hasValidFileSize lib f (maxFileSize s)
         then fileInfo\<lparr>accepted := Some False,
                       warning := Some (localize_term lib ''fileSizeExceeded'')\<rparr>
         else fileInfo\<lparr>accepted := Some True\<rparr>)"

text \<open>
  \<open>this.maxFiles && ...\<close>: the number \<open>0\<close> is falsy. \<open>if (this.url)\<close>: an absent and an
  empty string are both falsy.
\<close>

definition addFile :: "Library \<Rightarrow> File \<Rightarrow> Dropzone \<Rightarrow> Dropzone" where
  "addFile lib f s =
     (if maxFiles s \<noteq> 0 \<and> int (length (files s)) \<ge> maxFiles s
      then s\<lparr>dz_warning := Some (localize_term lib ''maxFiles'')\<rparr>
      else
        let r = next_ref s;
            s1 = s\<lparr>heap := (heap s)(r := validate lib s f), next_ref := Suc r\<rparr>;
            s2 = s1\<lparr>files := (if multiple s1 then files s1 @ [r] else [r])\<rparr>
        in (case url s2 of
              None \<Rightarrow> s2
            | Some u \<Rightarrow> if u = [] then s2 else uploadFile r u s2))"

definition handleFiles :: "Library \<Rightarrow> File list option \<Rightarrow> Dropzone \<Rightarrow> Dropzone" where
  "handleFiles lib fileList s =
     (case fileList of
        None \<Rightarrow> s
      | Some fl \<Rightarrow>
          if length fl = 0 then s
          else
            let s1 = s\<lparr>dz_warning := None\<rparr>
            in if \<not> multiple s1 \<and> length fl > 1
               then s1\<lparr>dz_warning := Some (localize_term lib ''noMultipleFiles'')\<rparr>
               else fold (addFile lib) fl (emit ''sl-change'' (FileListDetail fl) s1))"

definition onDrop :: "Library \<Rightarrow> File list option \<Rightarrow> Dropzone \<Rightarrow> Dropzone" where
  "onDrop lib fs s =
     (if fs = None \<or> disabled s \<or> noDrag s then s else handleFiles lib fs s)"

definition handleFileInputChange :: "Library \<Rightarrow> File list option \<Rightarrow> Dropzone \<Rightarrow> Dropzone" where
  "handleFileInputChange lib fs s = handleFiles lib fs (emit ''sl-select'' NoDetail s)"

text \<open>
  \<open>this.files[index]\<close> is \<open>undefined\<close> for an index outside the array, and reading
  \<open>.loading\<close> of \<open>undefined\<close> throws a \<open>TypeError\<close>; the state is then the one at the throw.
\<close>

definition handleFileRemove :: "Library \<Rightarrow> int \<Rightarrow> Dropzone \<Rightarrow> completion \<times> Dropzone" where
  "handleFileRemove lib index s =
     (if index < 0 \<or> int (length (files s)) \<le> index then (Throw TypeError, s)
      else
        let fileInfo = files s ! nat index;
            s1 = (if loading (heap s fileInfo) = Some True
                  then emit ''sl-abort'' (FileInfoDetail fileInfo)
                         (case xhr (heap s fileInfo) of
                            None \<Rightarrow> s
                          | Some x \<Rightarrow> xhr_abort lib x s)
                  else emit ''sl-remove'' (FileInfoDetail fileInfo) s)
        in (Normal,
            s1\<lparr>files := map snd (filter (\<lambda>p. fst p \<noteq> nat index)
                                   (zip [0..<length (files s1)] (files s1)))\<rparr>))"

section \<open>The validators and component instances\<close>

text \<open>
  Modelled from the spec: \<open>hasValidFileSize\<close> of \<open>./library\<close>, which is not part of the
  sources. It passes unconditionally if the maximum is unset, and otherwise requires
  the file's size to be at most the maximum.
\<close>

definition validateSize :: "File \<Rightarrow> nat option \<Rightarrow> bool" where
  "validateSize f maxBytes = (case maxBytes of None \<Rightarrow> True | Some m \<Rightarrow> fsize f \<le> m)"

text \<open>
  Modelled from the spec: \<open>hasValidFileType\<close> of \<open>./library\<close>, which is not part of the
  sources, with its helpers \<open>split_on\<close>, \<open>trim\<close> and \<open>matches_pattern\<close>. The accept
  specification is the wildcard, or a set of file-extension patterns or media-type
  patterns whose subtype may be a wildcard; a file passes if it matches at least one
  pattern, and a specification without patterns rejects every file. The set is written
  as the comma-separated list of an \<open>accept\<close> attribute.
\<close>

fun split_on :: "char \<Rightarrow> string \<Rightarrow> string list" where
  "split_on c [] = [[]]"
| "split_on c (x # xs) =
     (if x = c then [] # split_on c xs
      else (case split_on c xs of [] \<Rightarrow> [[x]] | w # ws \<Rightarrow> (x # w) # ws))"

definition trim :: "string \<Rightarrow> string" where
  "trim w = rev (dropWhile (\<lambda>c. c = CHR '' '') (rev (dropWhile (\<lambda>c. c = CHR '' '') w)))"

definition matches_pattern :: "File \<Rightarrow> string \<Rightarrow> bool" where
  "matches_pattern f p =
     (case p of
        [] \<Rightarrow> False
      | c # _ \<Rightarrow>
          if c = CHR ''.'' then suffix p (name f)
          else if suffix ''/*'' p then prefix (butlast p) (ftype f)
          else p = ftype f)"

definition validateType :: "File \<Rightarrow> string \<Rightarrow> bool" where
  "validateType f acceptSpec =
     (acceptSpec = ''*'' \<or>
      list_ex (matches_pattern f) (map trim (split_on CHR '','' acceptSpec)))"

text \<open>
  A lookup that answers every key with the key itself, so that evaluated states show
  which term was asked for.
\<close>

definition key_itself :: "string \<Rightarrow> string" where
  "key_itself key = key"

definition lib0 :: Library where
  "lib0 = \<lparr>hasValidFileType = validateType, hasValidFileSize = validateSize,
           localize_term = key_itself\<rparr>"

definition blank :: FileInfo where
  "blank = \<lparr>fi_file = \<lparr>name = [], fsize = 0, ftype = []\<rparr>, accepted = None, warning = None,
            loading = None, progress = None, xhr = None\<rparr>"

text \<open>The component as constructed: the field initialisers of the class, no file yet.\<close>

definition init :: Dropzone where
  "init = \<lparr>dz_warning = None, files = [], disabled = False, noDrag = False,
           accept = ''*'', maxFileSize = None, maxFiles = 1, url = None,
           http_method = ''POST'', headers = None, withCredentials = False,
           binaryBody = False, heap = (\<lambda>_. blank), next_ref = 0, next_xhr = 0,
           transport = [], in_flight = (\<lambda>_. None), events = []\<rparr>"

definition a_png :: File where
  "a_png = \<lparr>name = ''a.png'', fsize = 1024, ftype = ''image/png''\<rparr>"

definition b_png :: File where
  "b_png = \<lparr>name = ''b.png'', fsize = 1024, ftype = ''image/png''\<rparr>"

definition b_txt :: File where
  "b_txt = \<lparr>name = ''b.txt'', fsize = 1024, ftype = ''text/plain''\<rparr>"

text \<open>Three files at most, images only, with an upload endpoint.\<close>

definition image_uploader :: Dropzone where
  "image_uploader =
     init\<lparr>accept := ''image/*'', maxFiles := 3, url := Some ''https://example.test/upload''\<rparr>"

text \<open>The default component with an upload endpoint, and the same after \<open>a.png\<close> came in.\<close>

definition uploader :: Dropzone where
  "uploader = init\<lparr>url := Some ''https://example.test/upload''\<rparr>"

definition uploading :: Dropzone where
  "uploading = handleFiles lib0 (Some [a_png]) uploader"

text \<open>The default component without an endpoint after \<open>a.png\<close> came in.\<close>

definition holding :: Dropzone where
  "holding = handleFiles lib0 (Some [a_png]) init"



definition half :: ProgressEvent where
  "half = \<lparr>lengthComputable = True, loaded = 50, total = 100\<rparr>"

definition unknown_length :: ProgressEvent where
  "unknown_length = \<lparr>lengthComputable = False, loaded = 0, total = 0\<rparr>"

definition ok200 :: XMLHttpRequest where
  "ok200 = \<lparr>status = 200, response = ''ok''\<rparr>"

definition err500 :: XMLHttpRequest where
  "err500 = \<lparr>status = 500, response = ''oops''\<rparr>"

section \<open>Auxiliary facts\<close>

lemmas ops =
  modify_def emit_def call_def multiple_def updateTransferProgress_def
  onTransferComplete_def onTransferError_def onTransferAbort_def uploadFile_def
  validate_def addFile_def handleFiles_def handleFileRemove_def fire_def xhr_abort_def

lemmas instances =
  validateSize_def validateType_def matches_pattern_def trim_def key_itself_def lib0_def
  blank_def init_def a_png_def b_png_def b_txt_def suffix_to_prefix
  image_uploader_def uploader_def uploading_def holding_def

subsection \<open>Rounding to a double\<close>

lemma floor_numeral_div_rat:
  "\<lfloor>numeral a / numeral b :: rat\<rfloor> = numeral a div numeral b"
  by (metis floor_divide_of_int_eq of_int_numeral)

lemmas binary64_eval = binary64_def rne_def Let_def floor_numeral_div_rat ilog2.simps


lemma binary64_seven_hundredths:
  "binary64 (7 / 100) = 1261007895663739 / 18014398509481984"
  by (simp add: binary64_eval)














subsection \<open>States and steps\<close>

text \<open>The state after \<open>a.png\<close> came in with an endpoint configured: one record, accepted and loading.\<close>

lemma uploading_state:
  "files uploading = [0] \<and> accepted (heap uploading 0) = Some True \<and>
   warning (heap uploading 0) = None \<and> loading (heap uploading 0) = Some True \<and>
   xhr (heap uploading 0) = Some 0 \<and> progress (heap uploading 0) = Some (Finite 0) \<and>
   events uploading = [(''sl-change'', FileListDetail [a_png])] \<and>
   in_flight uploading 0 = Some 0 \<and>
   transport uploading =
     [XhrOpen 0 ''POST'' ''https://example.test/upload'', XhrUploadListeners 0 0,
      XhrSetRequestHeader 0 ''Content-Type'' ''multipart/form-data'',
      XhrSend 0 (FormDataBody ''a.png'' a_png)]"
  by (simp add: ops instances Let_def)

lemma holding_state:
  "files holding = [0] \<and> accepted (heap holding 0) = Some True \<and>
   loading (heap holding 0) = None \<and> xhr (heap holding 0) = None \<and>
   events holding = [(''sl-change'', FileListDetail [a_png])] \<and> transport holding = []"
  by (simp add: ops instances Let_def)

text \<open>Dropping the entry at one index of an array, as the \<open>filter\<close> on the index does.\<close>

lemma filter_index_keep:
  "i < k \<Longrightarrow> map snd (filter (\<lambda>p. fst p \<noteq> i) (enumerate k xs)) = xs"
  by (induction xs arbitrary: k) auto

lemma filter_index_enumerate:
  "map snd (filter (\<lambda>p. fst p \<noteq> k + i) (enumerate k xs)) = take i xs @ drop (Suc i) xs"
proof (induction xs arbitrary: k i)
  case Nil
  then show ?case by simp
next
  case (Cons x xs)
  show ?case
  proof (cases i)
    case 0
    then show ?thesis using filter_index_keep [of k "Suc k" xs] by simp
  next
    case (Suc j)
    then show ?thesis using Cons.IH [of "Suc k" j] by simp
  qed
qed

lemma filter_index:
  "map snd (filter (\<lambda>p. fst p \<noteq> i) (zip [0..<length xs] xs)) = take i xs @ drop (Suc i) xs"
  using filter_index_enumerate [of 0 i xs] by (simp add: enumerate_eq_zip)


text \<open>Setting the configured headers only appends to the calls made on the request.\<close>

lemma fold_call:
  "fold (\<lambda>entry. call (g entry)) hs s = s\<lparr>transport := transport s @ map g hs\<rparr>"
  by (induction hs arbitrary: s) (simp_all add: call_def)

lemma uploadFile_heap:
  "heap (uploadFile r u s) =
     (heap s)(r := (heap s r)\<lparr>loading := Some True, progress := Some (Finite 0),
                              xhr := Some (next_xhr s)\<rparr>)"
  by (simp add: uploadFile_def modify_def call_def fold_call Let_def split: option.split)

text \<open>
  \<open>addFile\<close> starts the upload of the record it created whenever a non-empty \<open>url\<close> is
  set and the capacity check passed; the outcome of the validation plays no part.
\<close>

lemma addFile_uploads:
  assumes "\<not> (maxFiles s \<noteq> 0 \<and> maxFiles s \<le> int (length (files s)))"
    and "url s = Some u" and "u \<noteq> []"
  shows "loading (heap (addFile lib f s) (next_ref s)) = Some True \<and>
         accepted (heap (addFile lib f s) (next_ref s)) = accepted (validate lib s f)"
  using assms by (auto simp add: addFile_def uploadFile_heap Let_def)

text \<open>
  The removal at an index inside the array, step by step: the record is looked up, the
  branch on its loading flag is taken, and the array is filtered.
\<close>

lemma handleFileRemove_loading:
  assumes "0 \<le> index" and "index < int (length (files s))"
    and "loading (heap s (files s ! nat index)) = Some True"
    and "xhr (heap s (files s ! nat index)) = Some x"
    and "in_flight s x = Some r"
  shows "handleFileRemove lib index s =
    (Normal,
     (emit ''sl-abort'' (FileInfoDetail (files s ! nat index))
        (onTransferAbort lib abort_event r
           ((call (XhrAbort x) s)\<lparr>in_flight := (in_flight s)(x := None)\<rparr>)))
     \<lparr>files := take (nat index) (files s) @ drop (Suc (nat index)) (files s)\<rparr>)"
  using assms
  by (simp add: handleFileRemove_def xhr_abort_def fire_def onTransferAbort_def emit_def
      call_def modify_def Let_def filter_index)

section \<open>Intake\<close>

text \<open>
  Claim C1: a record rejected at intake never starts a transfer, even when an endpoint
  URL is configured. The code validates the file and then uploads it whatever the
  outcome: with images accepted only and an endpoint set, the text file \<open>b.txt\<close> is
  recorded as not accepted, with the type warning, and in the same call it is marked
  as loading and its request is opened and sent.
\<close>

theorem addFile_rejected_file_is_uploaded:
  "files (addFile lib0 b_txt image_uploader) = [0] \<and>
   accepted (heap (addFile lib0 b_txt image_uploader) 0) = Some False \<and>
   warning (heap (addFile lib0 b_txt image_uploader) 0) = Some ''fileTypeNotAccepted'' \<and>
   loading (heap (addFile lib0 b_txt image_uploader) 0) = Some True \<and>
   xhr (heap (addFile lib0 b_txt image_uploader) 0) = Some 0 \<and>
   transport (addFile lib0 b_txt image_uploader) =
     [XhrOpen 0 ''POST'' ''https://example.test/upload'', XhrUploadListeners 0 0,
      XhrSetRequestHeader 0 ''Content-Type'' ''multipart/form-data'',
      XhrSend 0 (FormDataBody ''b.txt'' b_txt)]"
  by (simp add: ops instances Let_def)

text \<open>
  Claim C2: with \<open>maxFiles = 1\<close>, a file arriving while the component holds one record
  replaces that record. The code refuses it instead: the capacity check at the head of
  \<open>addFile\<close> returns before the replacing assignment is reached, so after \<open>a.png\<close> and
  then \<open>b.png\<close> the only record is still the one of \<open>a.png\<close>, and the component
  warning is the one for too many files.
\<close>

theorem addFile_single_keeps_first_file:
  "maxFiles init = 1 \<and>
   files (handleFiles lib0 (Some [b_png]) (handleFiles lib0 (Some [a_png]) init)) = [0] \<and>
   fi_file (heap (handleFiles lib0 (Some [b_png]) (handleFiles lib0 (Some [a_png]) init)) 0)
     = a_png \<and>
   dz_warning (handleFiles lib0 (Some [b_png]) (handleFiles lib0 (Some [a_png]) init))
     = Some ''maxFiles''"
  by (simp add: ops instances Let_def)

text \<open>
  Claim C3, as stated: a batch of two or more files in single-selection mode adds no
  record, sets the warning for multiple files, and still emits \<open>sl-change\<close> with the
  batch. The last part fails: \<open>handleFiles\<close> returns before the \<open>emit\<close>, so no event is
  emitted at all.
\<close>

theorem handleFiles_batch_no_change_event:
  "maxFiles init = 1 \<and>
   (''sl-change'', FileListDetail [a_png, b_png])
     \<notin> set (events (handleFiles lib0 (Some [a_png, b_png]) init)) \<and>
   events (handleFiles lib0 (Some [a_png, b_png]) init) = []"
  by (simp add: ops instances)

text \<open>
  Claim C3, amended: a batch of two or more files in single-selection mode changes
  nothing but the component warning, which becomes the term for multiple files: no
  record is added and no notification is emitted, \<open>sl-change\<close> included.
\<close>

theorem handleFiles_batch_rejected:
  assumes "\<not> multiple s" and "1 < length fl"
  shows "handleFiles lib (Some fl) s =
           s\<lparr>dz_warning := Some (localize_term lib ''noMultipleFiles'')\<rparr> \<and>
         files (handleFiles lib (Some fl) s) = files s \<and>
         heap (handleFiles lib (Some fl) s) = heap s \<and>
         events (handleFiles lib (Some fl) s) = events s \<and>
         transport (handleFiles lib (Some fl) s) = transport s"
  using assms by (auto simp add: handleFiles_def multiple_def)

theorem handleFiles_batch_rejected_witness:
  "\<not> multiple init \<and> 1 < length [a_png, b_png] \<and>
   handleFiles lib0 (Some [a_png, b_png]) init = init\<lparr>dz_warning := Some ''noMultipleFiles''\<rparr> \<and>
   files (handleFiles lib0 (Some [a_png, b_png]) init) = [] \<and>
   events (handleFiles lib0 (Some [a_png, b_png]) init) = []"
  using handleFiles_batch_rejected [of init "[a_png, b_png]" lib0]
  by (simp add: multiple_def init_def lib0_def key_itself_def)

text \<open>
  Claim C10: a call of \<open>handleFiles\<close> with \<open>null\<close> or with an empty list leaves the whole
  component as it was: no notification, the same files, and the component warning
  keeps its value.
\<close>

theorem handleFiles_nothing_to_do:
  "handleFiles lib None s = s \<and> handleFiles lib (Some []) s = s"
  by (simp add: handleFiles_def)

section \<open>Removal\<close>

text \<open>
  Claim C4, as stated: removing at an index outside the array is a no-op that does not
  fail. It does fail: removing index 0 a second time, after the only record is gone,
  throws a \<open>TypeError\<close>.
\<close>

theorem handleFileRemove_twice_throws:
  "fst (handleFileRemove lib0 0 holding) = Normal \<and>
   files (snd (handleFileRemove lib0 0 holding)) = [] \<and>
   fst (handleFileRemove lib0 0 (snd (handleFileRemove lib0 0 holding))) = Throw TypeError"
  by (simp add: ops instances Let_def)

text \<open>
  Claim C4, amended: removing at an index outside the array throws a \<open>TypeError\<close>; the
  throw comes before any write, so no state is changed and no notification is emitted.
\<close>

theorem handleFileRemove_out_of_range:
  assumes "index < 0 \<or> int (length (files s)) \<le> index"
  shows "handleFileRemove lib index s = (Throw TypeError, s)"
  using assms by (auto simp add: handleFileRemove_def)

theorem handleFileRemove_out_of_range_witness:
  "int (length (files holding)) \<le> 1 \<and>
   handleFileRemove lib0 1 holding = (Throw TypeError, holding)"
  using handleFileRemove_out_of_range [where index = 1 and s = holding and lib = lib0]
  by (simp add: holding_state)

text \<open>
  Claim C8: removing at an index inside the array ends normally and takes the record
  out of \<open>files\<close>, the later ones moving down by one. If the record is loading, \<open>abort\<close>
  is called on its request (when it has one) and \<open>sl-abort\<close> is emitted with the record,
  and no \<open>sl-remove\<close>; otherwise \<open>sl-remove\<close> is emitted with the record and nothing
  else happens. The \<open>abort\<close> of a request whose upload is under way runs the abort
  listener inside the call: it emits an \<open>sl-abort\<close> of its own, with the event, before
  the one with the record, and it leaves the record not loading, not accepted and with
  the warning of an aborted transfer.
\<close>

theorem handleFileRemove_in_range:
  assumes "0 \<le> index" and "index < int (length (files s))"
  shows "fst (handleFileRemove lib index s) = Normal \<and>
    files (snd (handleFileRemove lib index s)) =
      take (nat index) (files s) @ drop (Suc (nat index)) (files s) \<and>
    (loading (heap s (files s ! nat index)) = Some True \<longrightarrow>
       events (snd (handleFileRemove lib index s)) =
         events s @
         (case xhr (heap s (files s ! nat index)) of
            None \<Rightarrow> []
          | Some x \<Rightarrow>
              (case in_flight s x of
                 None \<Rightarrow> []
               | Some r \<Rightarrow> [(''sl-abort'', EventDetail abort_event)])) @
         [(''sl-abort'', FileInfoDetail (files s ! nat index))] \<and>
       transport (snd (handleFileRemove lib index s)) =
         transport s @ (case xhr (heap s (files s ! nat index)) of
                          None \<Rightarrow> [] | Some x \<Rightarrow> [XhrAbort x])) \<and>
    (loading (heap s (files s ! nat index)) = Some True \<and>
     xhr (heap s (files s ! nat index)) = Some x \<and>
     in_flight s x = Some (files s ! nat index) \<longrightarrow>
       loading (heap (snd (handleFileRemove lib index s)) (files s ! nat index)) = Some False \<and>
       accepted (heap (snd (handleFileRemove lib index s)) (files s ! nat index)) = Some False \<and>
       warning (heap (snd (handleFileRemove lib index s)) (files s ! nat index)) =
         Some (localize_term lib ''transferAbort'') \<and>
       in_flight (snd (handleFileRemove lib index s)) x = None) \<and>
    (loading (heap s (files s ! nat index)) \<noteq> Some True \<longrightarrow>
       events (snd (handleFileRemove lib index s)) =
         events s @ [(''sl-remove'', FileInfoDetail (files s ! nat index))] \<and>
       transport (snd (handleFileRemove lib index s)) = transport s \<and>
       heap (snd (handleFileRemove lib index s)) = heap s)"
  using assms
  by (auto simp add: handleFileRemove_def xhr_abort_def fire_def onTransferAbort_def
      Let_def emit_def call_def modify_def filter_index split: option.splits)

theorem handleFileRemove_in_range_witness:
  "(0::int) \<le> 0 \<and> 0 < int (length (files uploading)) \<and>
   loading (heap uploading 0) = Some True \<and> xhr (heap uploading 0) = Some 0 \<and>
   in_flight uploading 0 = Some 0 \<and>
   files (snd (handleFileRemove lib0 0 uploading)) = [] \<and>
   events (snd (handleFileRemove lib0 0 uploading)) =
     [(''sl-change'', FileListDetail [a_png]), (''sl-abort'', EventDetail abort_event),
      (''sl-abort'', FileInfoDetail 0)] \<and>
   transport (snd (handleFileRemove lib0 0 uploading)) = transport uploading @ [XhrAbort 0] \<and>
   loading (heap (snd (handleFileRemove lib0 0 uploading)) 0) = Some False \<and>
   accepted (heap (snd (handleFileRemove lib0 0 uploading)) 0) = Some False \<and>
   warning (heap (snd (handleFileRemove lib0 0 uploading)) 0) = Some ''transferAbort'' \<and>
   0 < int (length (files holding)) \<and> loading (heap holding 0) \<noteq> Some True \<and>
   files (snd (handleFileRemove lib0 0 holding)) = [] \<and>
   events (snd (handleFileRemove lib0 0 holding)) =
     [(''sl-change'', FileListDetail [a_png]), (''sl-remove'', FileInfoDetail 0)] \<and>
   transport (snd (handleFileRemove lib0 0 holding)) = []"
  using handleFileRemove_in_range [where index = 0 and s = uploading and lib = lib0 and x = 0]
    handleFileRemove_in_range [where index = 0 and s = holding and lib = lib0 and x = 0]
  by (simp add: uploading_state holding_state lib0_def key_itself_def)

section \<open>Transfer callbacks\<close>

text \<open>
  The component has no field for the state of a transfer. A record is in progress while
  \<open>loading\<close> is true; after a callback that ends the transfer \<open>loading\<close> is false, and
  a failed or aborted transfer is told from a completed one by the \<open>warning\<close> the
  callback wrote.
\<close>

text \<open>
  Claim C5, as stated: \<open>accepted\<close> is written once, at intake, and no callback changes
  it afterwards. The callbacks for a failed and for an aborted transfer do change it:
  the record of \<open>a.png\<close> is accepted at intake and not accepted after a transport error.
\<close>

theorem onTransferError_revokes_accepted:
  "accepted (heap uploading 0) = Some True \<and>
   accepted (heap (onTransferError lib0 unknown_length 0 uploading) 0) = Some False"
  by (simp add: onTransferError_def modify_def emit_def uploading_state)

text \<open>
  Claim C5, amended: \<open>accepted\<close> is written at intake, as the outcome of the two
  validators. The progress callback and a completion with status 200 leave it as it is
  on every record; a completion with another status, a transport error and an abort set
  it to false on their record.
\<close>

theorem accepted_after_callbacks:
  "accepted (validate lib s f) =
     Some (hasValidFileType lib f (accept s) \<and> hasValidFileSize lib f (maxFileSize s)) \<and>
   accepted (heap (updateTransferProgress ev r s) r') = accepted (heap s r') \<and>
   (status req = 200 \<longrightarrow>
      accepted (heap (onTransferComplete lib ev req r s) r') = accepted (heap s r')) \<and>
   (status req \<noteq> 200 \<longrightarrow>
      accepted (heap (onTransferComplete lib ev req r s) r) = Some False) \<and>
   accepted (heap (onTransferError lib ev r s) r) = Some False \<and>
   accepted (heap (onTransferAbort lib ev r s) r) = Some False"
  by (simp add: updateTransferProgress_def onTransferComplete_def onTransferError_def
      onTransferAbort_def validate_def modify_def emit_def Let_def)

theorem accepted_after_callbacks_witness:
  "status ok200 = 200 \<and> status err500 \<noteq> 200 \<and>
   accepted (heap uploading 0) = Some True \<and>
   accepted (heap (updateTransferProgress half 0 uploading) 0) = Some True \<and>
   accepted (heap (onTransferComplete lib0 half ok200 0 uploading) 0) = Some True \<and>
   accepted (heap (onTransferComplete lib0 half err500 0 uploading) 0) = Some False \<and>
   accepted (heap (onTransferAbort lib0 half 0 uploading) 0) = Some False"
  using accepted_after_callbacks [of lib0 uploading a_png half 0 0 ok200]
    accepted_after_callbacks [of lib0 uploading a_png half 0 0 err500]
  by (simp add: uploading_state ok200_def err500_def)




text \<open>
  Claim C7, as stated: every callback that ends a transfer clears the record's request
  handle together with its loading flag. The handle is never cleared: after the
  completion with status 200 the record of \<open>a.png\<close> is no longer loading and still holds
  the request it was sent with.
\<close>

theorem onTransferComplete_keeps_xhr:
  "loading (heap (onTransferComplete lib0 half ok200 0 uploading) 0) = Some False \<and>
   xhr (heap (onTransferComplete lib0 half ok200 0 uploading) 0) = Some 0"
  by (simp add: onTransferComplete_def modify_def emit_def ok200_def uploading_state Let_def)

text \<open>
  Claim C7, amended: every callback that ends a transfer (completion with any status,
  transport error, abort) sets the record's loading flag to false in the same step, and
  leaves the record's request handle as it was.
\<close>

theorem terminal_callbacks_loading_and_xhr:
  "loading (heap (onTransferComplete lib ev req r s) r) = Some False \<and>
   xhr (heap (onTransferComplete lib ev req r s) r) = xhr (heap s r) \<and>
   loading (heap (onTransferError lib ev r s) r) = Some False \<and>
   xhr (heap (onTransferError lib ev r s) r) = xhr (heap s r) \<and>
   loading (heap (onTransferAbort lib ev r s) r) = Some False \<and>
   xhr (heap (onTransferAbort lib ev r s) r) = xhr (heap s r)"
  by (simp add: ops Let_def)

text \<open>
  Claim C9: a completion callback ends the loading of its record. With status 200 it
  emits \<open>sl-load\<close> carrying the response and writes no warning; with any other status it
  writes the warning for a server error and emits \<open>sl-error\<close> carrying the event. In
  both cases nothing is called on any request, so nothing is tried again.
\<close>

theorem onTransferComplete_outcome:
  "loading (heap (onTransferComplete lib ev req r s) r) = Some False \<and>
   transport (onTransferComplete lib ev req r s) = transport s \<and>
   next_xhr (onTransferComplete lib ev req r s) = next_xhr s \<and>
   files (onTransferComplete lib ev req r s) = files s \<and>
   (status req = 200 \<longrightarrow>
      events (onTransferComplete lib ev req r s) =
        events s @ [(''sl-load'', ResponseDetail (response req))] \<and>
      warning (heap (onTransferComplete lib ev req r s) r) = warning (heap s r)) \<and>
   (status req \<noteq> 200 \<longrightarrow>
      events (onTransferComplete lib ev req r s) =
        events s @ [(''sl-error'', EventDetail ev)] \<and>
      warning (heap (onTransferComplete lib ev req r s) r) =
        Some (localize_term lib ''serverError''))"
  by (simp add: ops Let_def)

theorem onTransferComplete_outcome_witness:
  "status ok200 = 200 \<and> status err500 \<noteq> 200 \<and> loading (heap uploading 0) = Some True \<and>
   loading (heap (onTransferComplete lib0 half ok200 0 uploading) 0) = Some False \<and>
   events (onTransferComplete lib0 half ok200 0 uploading) =
     [(''sl-change'', FileListDetail [a_png]), (''sl-load'', ResponseDetail ''ok'')] \<and>
   warning (heap (onTransferComplete lib0 half ok200 0 uploading) 0) = None \<and>
   events (onTransferComplete lib0 half err500 0 uploading) =
     [(''sl-change'', FileListDetail [a_png]), (''sl-error'', EventDetail half)] \<and>
   warning (heap (onTransferComplete lib0 half err500 0 uploading) 0) = Some ''serverError''"
  using onTransferComplete_outcome [of lib0 half ok200 0 uploading]
    onTransferComplete_outcome [of lib0 half err500 0 uploading]
  by (simp add: uploading_state ok200_def err500_def lib0_def key_itself_def)

end
